theory Spec2Isabelle
  imports Main
begin

section \<open>Plan policy table (middleware/planAccess)\<close>

datatype PlanType = SIMPLE | COMPOSITE | MANAGERIAL

text \<open>The keys of the three plan tables in the order they are written, which is the
  order \<open>Object.entries\<close> enumerates them.\<close>

definition planKeys :: "PlanType list" where
  "planKeys = [SIMPLE, COMPOSITE, MANAGERIAL]"

fun PLAN_LEVELS :: "PlanType \<Rightarrow> int" where
  "PLAN_LEVELS SIMPLE = 1"
| "PLAN_LEVELS COMPOSITE = 2"
| "PLAN_LEVELS MANAGERIAL = 3"

fun PLAN_MODULES :: "PlanType \<Rightarrow> string list" where
  "PLAN_MODULES SIMPLE =
     [''dashboard'', ''crm'', ''clients'', ''basic_reports'']"
| "PLAN_MODULES COMPOSITE =
     [''dashboard'', ''crm'', ''clients'', ''projects'', ''tasks'', ''basic_reports'',
      ''project_reports'', ''file_management'']"
| "PLAN_MODULES MANAGERIAL =
     [''dashboard'', ''crm'', ''clients'', ''projects'', ''tasks'', ''billing'', ''invoices'',
      ''cash_flow'', ''transactions'', ''advanced_reports'', ''analytics'',
      ''file_management'', ''audit_logs'', ''user_management'']"

text \<open>The keys of \<open>PLAN_LIMITS.SIMPLE.features\<close> and the resource kinds accepted by
  \<open>checkPlanLimits\<close>.\<close>

datatype Feature = F_projects | F_billing | F_advanced_reports | F_api_access

datatype ResourceType = R_users | R_clients | R_projects | R_storage

record limits =
  maxUsers :: int
  maxClients :: int
  maxProjects :: int
  maxStorage :: int
  features :: "Feature \<Rightarrow> bool"

fun simpleFeatures :: "Feature \<Rightarrow> bool" where
  "simpleFeatures F_projects = False"
| "simpleFeatures F_billing = False"
| "simpleFeatures F_advanced_reports = False"
| "simpleFeatures F_api_access = False"

fun compositeFeatures :: "Feature \<Rightarrow> bool" where
  "compositeFeatures F_projects = True"
| "compositeFeatures F_billing = False"
| "compositeFeatures F_advanced_reports = False"
| "compositeFeatures F_api_access = True"

fun managerialFeatures :: "Feature \<Rightarrow> bool" where
  "managerialFeatures F_projects = True"
| "managerialFeatures F_billing = True"
| "managerialFeatures F_advanced_reports = True"
| "managerialFeatures F_api_access = True"

fun PLAN_LIMITS :: "PlanType \<Rightarrow> limits" where
  "PLAN_LIMITS SIMPLE =
     \<lparr>maxUsers = 3, maxClients = 50, maxProjects = 0,
      maxStorage = 1024 * 1024 * 100, features = simpleFeatures\<rparr>"
| "PLAN_LIMITS COMPOSITE =
     \<lparr>maxUsers = 10, maxClients = 200, maxProjects = 100,
      maxStorage = 1024 * 1024 * 500, features = compositeFeatures\<rparr>"
| "PLAN_LIMITS MANAGERIAL =
     \<lparr>maxUsers = - 1, maxClients = - 1, maxProjects = - 1,
      maxStorage = 1024 * 1024 * 1024 * 5, features = managerialFeatures\<rparr>"

definition getSuggestedPlans :: "string \<Rightarrow> PlanType list" where
  "getSuggestedPlans requiredModule =
     filter (\<lambda>plan. requiredModule \<in> set (PLAN_MODULES plan)) planKeys"

definition getSuggestedPlansForLimit :: "ResourceType \<Rightarrow> PlanType \<Rightarrow> PlanType list" where
  "getSuggestedPlansForLimit resourceType currentPlan =
     filter (\<lambda>plan. PLAN_LEVELS plan > PLAN_LEVELS currentPlan) planKeys"

definition getSuggestedPlansForFeature :: "Feature \<Rightarrow> PlanType list" where
  "getSuggestedPlansForFeature feature =
     filter (\<lambda>plan. features (PLAN_LIMITS plan) feature) planKeys"

definition canAccessModule :: "PlanType \<Rightarrow> string \<Rightarrow> bool" where
  "canAccessModule planType module = (module \<in> set (PLAN_MODULES planType))"

definition hasFeature :: "PlanType \<Rightarrow> Feature \<Rightarrow> bool" where
  "hasFeature planType feature = features (PLAN_LIMITS planType) feature"

section \<open>Requests, responses and the persistence layer\<close>

text \<open>\<open>req.user\<close> as \<open>authenticateToken\<close> attaches it, and the tenant row that
  \<open>checkPlanAccess\<close> selects (\<open>id\<close>, \<open>planType\<close>, \<open>isActive\<close>, \<open>expiresAt\<close>). A date is
  its time value in milliseconds; \<open>expiresAt\<close> is nullable.\<close>

record user =
  userId :: string
  tenantId :: string
  accountType :: string

record tenant =
  tenant_id :: string
  planType :: PlanType
  isActive :: bool
  expiresAt :: "int option"

record request =
  req_user :: "user option"
  req_tenant :: "tenant option"

text \<open>An awaited call of the persistence layer either rejects (with a description of the
  error) or resolves to a value.\<close>

datatype 'a promise = Rejected string | Resolved 'a

text \<open>The queries the plan middlewares issue, each keyed by the tenant id of its
  \<open>where\<close> clause. \<open>file_findMany\<close> returns the selected \<open>size\<close> column, which may be
  null.\<close>

record db =
  tenant_findUnique :: "string \<Rightarrow> tenant option promise"
  user_count :: "string \<Rightarrow> int promise"
  client_count :: "string \<Rightarrow> int promise"
  project_count :: "string \<Rightarrow> int promise"
  file_findMany :: "string \<Rightarrow> int option list promise"

text \<open>The JSON bodies sent by the plan middlewares, named by their \<open>code\<close> field and
  carrying the other fields in the order of the source. The human-readable \<open>error\<close>
  text is left out.\<close>

datatype body =
    INVALID_TOKEN
  | TENANT_NOT_FOUND
  | TENANT_INACTIVE
  | PLAN_EXPIRED int
  | PLAN_ACCESS_DENIED PlanType string "string list" "PlanType list"
  | PLAN_LIMIT_EXCEEDED PlanType ResourceType int int "PlanType list"
  | FEATURE_NOT_AVAILABLE PlanType Feature "PlanType list"
  | INVALID_AUTH
  | INTERNAL_ERROR

fun code :: "body \<Rightarrow> string" where
  "code INVALID_TOKEN = ''INVALID_TOKEN''"
| "code TENANT_NOT_FOUND = ''TENANT_NOT_FOUND''"
| "code TENANT_INACTIVE = ''TENANT_INACTIVE''"
| "code (PLAN_EXPIRED e) = ''PLAN_EXPIRED''"
| "code (PLAN_ACCESS_DENIED p m ms ss) = ''PLAN_ACCESS_DENIED''"
| "code (PLAN_LIMIT_EXCEEDED p r c n ss) = ''PLAN_LIMIT_EXCEEDED''"
| "code (FEATURE_NOT_AVAILABLE p f ss) = ''FEATURE_NOT_AVAILABLE''"
| "code INVALID_AUTH = ''INVALID_AUTH''"
| "code INTERNAL_ERROR = ''INTERNAL_ERROR''"

text \<open>A middleware either answers with a status and a body, or calls \<open>next()\<close> with the
  request as it has left it.\<close>

datatype outcome = Respond nat body | Next request

fun verdict :: "outcome \<Rightarrow> (nat \<times> body) option" where
  "verdict (Respond status b) = Some (status, b)"
| "verdict (Next req) = None"

text \<open>\<open>req.user?.tenantId\<close>, with \<open>None\<close> for every falsy value: no user, or the
  empty string.\<close>

definition truthyTenantId :: "request \<Rightarrow> string option" where
  "truthyTenantId req =
     (case req_user req of
        None \<Rightarrow> None
      | Some u \<Rightarrow> if tenantId u = [] then None else Some (tenantId u))"

text \<open>\<open>tenant.expiresAt && new Date() > tenant.expiresAt\<close>: the expiry timestamp when
  there is one and it has passed.\<close>

definition expiredAt :: "int \<Rightarrow> tenant \<Rightarrow> int option" where
  "expiredAt now t =
     (case expiresAt t of None \<Rightarrow> None | Some e \<Rightarrow> if now > e then Some e else None)"

section \<open>Entitlement checks (middleware/planAccess)\<close>

definition checkPlanAccess :: "string \<Rightarrow> request \<Rightarrow> db \<Rightarrow> int \<Rightarrow> outcome" where
  "checkPlanAccess requiredModule req d now =
     (case truthyTenantId req of
        None \<Rightarrow> Respond 401 INVALID_TOKEN
      | Some tid \<Rightarrow>
          (case tenant_findUnique d tid of
             Rejected err \<Rightarrow> Respond 500 INTERNAL_ERROR
           | Resolved None \<Rightarrow> Respond 404 TENANT_NOT_FOUND
           | Resolved (Some t) \<Rightarrow>
               if \<not> isActive t then Respond 403 TENANT_INACTIVE
               else
                 (case expiredAt now t of
                    Some e \<Rightarrow> Respond 403 (PLAN_EXPIRED e)
                  | None \<Rightarrow>
                      if requiredModule \<notin> set (PLAN_MODULES (planType t))
                      then Respond 403 (PLAN_ACCESS_DENIED (planType t) requiredModule
                             (PLAN_MODULES (planType t)) (getSuggestedPlans requiredModule))
                      else Next (req\<lparr>req_tenant := Some t\<rparr>))))"

text \<open>The \<open>switch\<close> of \<open>checkPlanLimits\<close>: the pair \<open>(currentCount, maxAllowed)\<close> it
  leaves for the resource kind, or the rejection of its query. For storage the count is
  the sum of \<open>file.size || 0\<close> over the tenant's files.\<close>

fun resourceUsage :: "db \<Rightarrow> limits \<Rightarrow> ResourceType \<Rightarrow> string \<Rightarrow> (int \<times> int) promise" where
  "resourceUsage d lim R_users tid =
     (case user_count d tid of
        Rejected err \<Rightarrow> Rejected err
      | Resolved n \<Rightarrow> Resolved (n, maxUsers lim))"
| "resourceUsage d lim R_clients tid =
     (case client_count d tid of
        Rejected err \<Rightarrow> Rejected err
      | Resolved n \<Rightarrow> Resolved (n, maxClients lim))"
| "resourceUsage d lim R_projects tid =
     (case project_count d tid of
        Rejected err \<Rightarrow> Rejected err
      | Resolved n \<Rightarrow> Resolved (n, maxProjects lim))"
| "resourceUsage d lim R_storage tid =
     (case file_findMany d tid of
        Rejected err \<Rightarrow> Rejected err
      | Resolved files \<Rightarrow>
          Resolved
            (foldl (\<lambda>total size. total + (case size of None \<Rightarrow> 0 | Some s \<Rightarrow> s)) 0 files,
             maxStorage lim))"

definition checkPlanLimits :: "ResourceType \<Rightarrow> request \<Rightarrow> db \<Rightarrow> outcome" where
  "checkPlanLimits resourceType req d =
     (case req_tenant req of
        None \<Rightarrow> Respond 401 INVALID_AUTH
      | Some t \<Rightarrow>
          (case truthyTenantId req of
             None \<Rightarrow> Respond 401 INVALID_AUTH
           | Some tid \<Rightarrow>
               (case resourceUsage d (PLAN_LIMITS (planType t)) resourceType tid of
                  Rejected err \<Rightarrow> Respond 500 INTERNAL_ERROR
                | Resolved (currentCount, maxAllowed) \<Rightarrow>
                    if maxAllowed \<noteq> - 1 \<and> currentCount \<ge> maxAllowed
                    then Respond 403 (PLAN_LIMIT_EXCEEDED (planType t) resourceType
                           currentCount maxAllowed
                           (getSuggestedPlansForLimit resourceType (planType t)))
                    else Next req)))"

definition checkPlanFeature :: "Feature \<Rightarrow> request \<Rightarrow> outcome" where
  "checkPlanFeature feature req =
     (case req_tenant req of
        None \<Rightarrow> Respond 401 INVALID_AUTH
      | Some t \<Rightarrow>
          if \<not> features (PLAN_LIMITS (planType t)) feature
          then Respond 403 (FEATURE_NOT_AVAILABLE (planType t) feature
                 (getSuggestedPlansForFeature feature))
          else Next req)"

text \<open>The codes of the denial payloads that the specification of the external interface
  enumerates, in its order.\<close>

definition spec_denial_codes :: "string list" where
  "spec_denial_codes =
     [''INVALID_TOKEN'', ''TENANT_INACTIVE'', ''PLAN_EXPIRED'', ''PLAN_ACCESS_DENIED'',
      ''PLAN_LIMIT_EXCEEDED'', ''FEATURE_NOT_AVAILABLE'', ''TENANT_NOT_FOUND'']"

section \<open>Tenant scoping (middleware/tenant)\<close>

text \<open>The values of a query argument, and an object as the list of its own properties
  in insertion order.\<close>

datatype jsval =
    JNull
  | JBool bool
  | JNum int
  | JStr string
  | JArr "jsval list"
  | JObj "(string \<times> jsval) list"

type_synonym obj = "(string \<times> jsval) list"

fun objGet :: "string \<Rightarrow> obj \<Rightarrow> jsval option" where
  "objGet k [] = None"
| "objGet k ((k', v) # ps) = (if k' = k then Some v else objGet k ps)"

text \<open>\<open>o[k] = v\<close>: an existing property keeps its place, a new one goes last.\<close>

fun objSet :: "string \<Rightarrow> jsval \<Rightarrow> obj \<Rightarrow> obj" where
  "objSet k v [] = [(k, v)]"
| "objSet k v ((k', v') # ps) =
     (if k' = k then (k, v) # ps else (k', v') # objSet k v ps)"

text \<open>The \<open>data\<close> argument of \<open>create\<close> and \<open>createMany\<close>: one record, or an array of
  records. An array is an object too: besides its elements it has the named properties
  that were assigned to it.\<close>

datatype payload = Single obj | Many "obj list" obj

text \<open>\<open>data['tenantId'] = tenantId\<close>: on an array the assignment creates a property of
  the array and leaves its elements as they are.\<close>

fun payloadSet :: "string \<Rightarrow> jsval \<Rightarrow> payload \<Rightarrow> payload" where
  "payloadSet k v (Single r) = Single (objSet k v r)"
| "payloadSet k v (Many rs props) = Many rs (objSet k v props)"

text \<open>The records a payload asks the store to insert.\<close>

fun records :: "payload \<Rightarrow> obj list" where
  "records (Single r) = [r]"
| "records (Many rs props) = rs"

record args =
  whereArg :: "obj option"
  data :: "payload option"
  others :: obj

record params =
  model :: "string option"
  action :: string
  args :: "args option"

datatype jsError = TypeError

definition tenantModels :: "string list" where
  "tenantModels =
     [''User'', ''Client'', ''Project'', ''Task'', ''Invoice'', ''Transaction'', ''AuditLog'']"

text \<open>The models of the data store, as the seed script clears them.\<close>

definition prismaModels :: "string list" where
  "prismaModels =
     [''AuditLog'', ''File'', ''Transaction'', ''Invoice'', ''Task'', ''Project'', ''Client'',
      ''User'', ''Tenant'']"

text \<open>\<open>a.where['tenantId'] = tenantId\<close> on the arguments \<open>a\<close>, after
  \<open>if (!a.where) a.where = {}\<close>.\<close>

definition scopeWhere :: "string \<Rightarrow> args \<Rightarrow> args" where
  "scopeWhere tid a =
     a\<lparr>whereArg :=
         Some (objSet ''tenantId'' (JStr tid)
                 (case whereArg a of None \<Rightarrow> [] | Some w \<Rightarrow> w))\<rparr>"

text \<open>The function that \<open>tenantMiddleware\<close> passes to \<open>prisma.$use\<close>, up to its call of
  \<open>next(params)\<close>; \<open>tid\<close> is the \<open>tenantId\<close> the closure has captured. Reading or
  writing a property of \<open>undefined\<close> throws.\<close>

definition scopeHook :: "string \<Rightarrow> params \<Rightarrow> jsError + params" where
  "scopeHook tid p =
     (if (case model p of None \<Rightarrow> False | Some m \<Rightarrow> m \<in> set tenantModels) then
        if action p = ''findUnique'' \<or> action p = ''findFirst'' then
          (case args p of
             None \<Rightarrow> Inl TypeError
           | Some a \<Rightarrow>
               (case whereArg a of
                  None \<Rightarrow> Inl TypeError
                | Some w \<Rightarrow> Inr (p\<lparr>args := Some (scopeWhere tid a)\<rparr>)))
        else if action p = ''findMany'' then
          (case args p of
             None \<Rightarrow>
               Inr (p\<lparr>args := Some (scopeWhere tid
                       \<lparr>whereArg = Some [], data = None, others = []\<rparr>)\<rparr>)
           | Some a \<Rightarrow> Inr (p\<lparr>args := Some (scopeWhere tid a)\<rparr>))
        else if action p = ''create'' \<or> action p = ''createMany'' then
          (case args p of
             None \<Rightarrow> Inl TypeError
           | Some a \<Rightarrow>
               (case data a of
                  None \<Rightarrow> Inr p
                | Some dt \<Rightarrow>
                    Inr (p\<lparr>args :=
                           Some (a\<lparr>data := Some (payloadSet ''tenantId'' (JStr tid) dt)\<rparr>)\<rparr>)))
        else if action p = ''update'' \<or> action p = ''updateMany'' then
          (case args p of
             None \<Rightarrow> Inl TypeError
           | Some a \<Rightarrow> Inr (p\<lparr>args := Some (scopeWhere tid a)\<rparr>))
        else if action p = ''delete'' \<or> action p = ''deleteMany'' then
          (case args p of
             None \<Rightarrow> Inl TypeError
           | Some a \<Rightarrow> Inr (p\<lparr>args := Some (scopeWhere tid a)\<rparr>))
        else Inr p
      else Inr p)"

text \<open>The module-level \<open>prisma\<close> client of the middleware. \<open>$use\<close> appends a function
  to the client's middleware list; the list lives as long as the client, and every
  operation on the client goes through all of it in the order of installation, each
  function handing its \<open>params\<close> to the next one. An installed function is held as the
  tenant id its closure has captured.\<close>

record client =
  installed :: "string list"

definition use :: "string \<Rightarrow> client \<Rightarrow> client" where
  "use tid c = c\<lparr>installed := installed c @ [tid]\<rparr>"

fun runMiddlewares :: "string list \<Rightarrow> params \<Rightarrow> jsError + params" where
  "runMiddlewares [] p = Inr p"
| "runMiddlewares (tid # tids) p =
     (case scopeHook tid p of
        Inl e \<Rightarrow> Inl e
      | Inr p' \<Rightarrow> runMiddlewares tids p')"

definition execute :: "client \<Rightarrow> params \<Rightarrow> jsError + params" where
  "execute c p = runMiddlewares (installed c) p"

text \<open>What \<open>tenantMiddleware\<close> hands to \<open>next\<close>: an \<open>AppError\<close> with its status code (the
  message is left out), or the rejection of the tenant query.\<close>

datatype failure = AppError nat | QueryFailed string

text \<open>\<open>tenantMiddleware\<close>: on success the client has one more installed function and
  \<open>next()\<close> is called; otherwise \<open>next(error)\<close>.\<close>

definition tenantMiddleware :: "request \<Rightarrow> db \<Rightarrow> int \<Rightarrow> client \<Rightarrow> failure + client" where
  "tenantMiddleware req d now c =
     (case truthyTenantId req of
        None \<Rightarrow> Inl (AppError 401)
      | Some tid \<Rightarrow>
          (case tenant_findUnique d tid of
             Rejected err \<Rightarrow> Inl (QueryFailed err)
           | Resolved None \<Rightarrow> Inl (AppError 404)
           | Resolved (Some t) \<Rightarrow>
               if \<not> isActive t then Inl (AppError 403)
               else
                 (case expiredAt now t of
                    Some e \<Rightarrow> Inl (AppError 403)
                  | None \<Rightarrow> Inr (use tid c))))"

text \<open>The tenant id that a rewritten operation carries in its filter, and the tenant ids
  of the records it would insert.\<close>

definition whereTenant :: "params \<Rightarrow> jsval option" where
  "whereTenant p =
     (case args p of
        None \<Rightarrow> None
      | Some a \<Rightarrow> (case whereArg a of None \<Rightarrow> None | Some w \<Rightarrow> objGet ''tenantId'' w))"

definition dataTenants :: "params \<Rightarrow> jsval option list" where
  "dataTenants p =
     (case args p of
        None \<Rightarrow> []
      | Some a \<Rightarrow>
          (case data a of None \<Rightarrow> [] | Some dt \<Rightarrow> map (objGet ''tenantId'') (records dt)))"

section \<open>Audit recorder (utils/AppError) and a caller (routes/tenant.routes)\<close>

text \<open>The \<open>data\<close> of an audit entry: \<open>userId\<close>, \<open>tenantId\<close>, \<open>action\<close>,
  \<open>resourceType\<close>, \<open>resourceId\<close> and the optional \<open>details\<close>.\<close>

datatype auditData = AuditData string string string string string "obj option"

text \<open>The console, as the list of what \<open>console.error\<close> was given.\<close>

type_synonym console = "(string \<times> string) list"

text \<open>\<open>createAuditLog\<close>. The \<open>prisma\<close> argument is taken as its \<open>auditLog.create\<close>:
  on a store \<open>s\<close> it resolves to the store with the entry appended, or rejects. The result
  is the settlement of the promise that \<open>createAuditLog\<close> returns, the store and the
  console.\<close>

definition createAuditLog ::
  "(auditData \<Rightarrow> 's \<Rightarrow> 's promise) \<Rightarrow> string \<Rightarrow> string \<Rightarrow> string \<Rightarrow> string \<Rightarrow> string \<Rightarrow>
     obj option \<Rightarrow> 's \<times> console \<Rightarrow> unit promise \<times> 's \<times> console" where
  "createAuditLog auditLog_create uid tid act resourceType resourceId details st =
     (case st of (s, con) \<Rightarrow>
        (case auditLog_create (AuditData uid tid act resourceType resourceId details) s of
           Resolved s' \<Rightarrow> (Resolved (), s', con)
         | Rejected err \<Rightarrow>
             (Resolved (), s, con @ [(''Erro ao criar log de auditoria:'', err)])))"

text \<open>The handler of \<open>POST /clients\<close>, after its plan middlewares. \<open>parsed\<close> is the result
  of \<open>createClientSchema.parse(req.body)\<close>; \<open>client_create\<close> resolves to the id and the
  row of the new client. The handler either sends a status with a JSON body, or fails and
  \<open>asyncHandler\<close> passes the error on.\<close>

datatype reply = Json nat string obj | Thrown string

definition postClients ::
  "obj promise \<Rightarrow> (obj \<Rightarrow> 's \<Rightarrow> (string \<times> obj \<times> 's) promise) \<Rightarrow>
     (auditData \<Rightarrow> 's \<Rightarrow> 's promise) \<Rightarrow> request \<Rightarrow> 's \<times> console \<Rightarrow> reply \<times> 's \<times> console" where
  "postClients parsed client_create auditLog_create req st =
     (case st of (s, con) \<Rightarrow>
        (case parsed of
           Rejected err \<Rightarrow> (Thrown err, s, con)
         | Resolved dt \<Rightarrow>
             (case req_user req of
                None \<Rightarrow> (Thrown ''TypeError'', s, con)
              | Some u \<Rightarrow>
                  (case client_create (objSet ''tenantId'' (JStr (tenantId u)) dt) s of
                     Rejected err \<Rightarrow> (Thrown err, s, con)
                   | Resolved (cid, row, s1) \<Rightarrow>
                       (case createAuditLog auditLog_create (userId u) (tenantId u)
                               ''CREATE'' ''CLIENT'' cid None (s1, con) of
                          (Rejected err, s2, con2) \<Rightarrow> (Thrown err, s2, con2)
                        | (Resolved x, s2, con2) \<Rightarrow> (Json 201 cid row, s2, con2))))))"

section \<open>Concrete requests and stores\<close>

definition reqOf :: "string \<Rightarrow> request" where
  "reqOf tid =
     \<lparr>req_user = Some \<lparr>userId = ''u1'', tenantId = tid, accountType = ''SIMPLE''\<rparr>,
      req_tenant = None\<rparr>"

definition tenantRow :: "string \<Rightarrow> PlanType \<Rightarrow> bool \<Rightarrow> int option \<Rightarrow> tenant" where
  "tenantRow tid plan active expiry =
     \<lparr>tenant_id = tid, planType = plan, isActive = active, expiresAt = expiry\<rparr>"

text \<open>The request as a passing module-access check leaves it, with the tenant row
  \<open>t\<close> attached.\<close>

definition admitted :: "string \<Rightarrow> tenant \<Rightarrow> request" where
  "admitted tid t = (reqOf tid)\<lparr>req_tenant := Some t\<rparr>"

text \<open>A store that holds the given tenant rows and answers every count with \<open>n\<close>.\<close>

fun findTenant :: "tenant list \<Rightarrow> string \<Rightarrow> tenant option" where
  "findTenant [] tid = None"
| "findTenant (t # ts) tid = (if tenant_id t = tid then Some t else findTenant ts tid)"

definition dbWith :: "tenant list \<Rightarrow> int \<Rightarrow> db" where
  "dbWith ts n =
     \<lparr>tenant_findUnique = (\<lambda>tid. Resolved (findTenant ts tid)),
      user_count = (\<lambda>tid. Resolved n),
      client_count = (\<lambda>tid. Resolved n),
      project_count = (\<lambda>tid. Resolved n),
      file_findMany = (\<lambda>tid. Resolved [Some n, None])\<rparr>"

text \<open>An operation on a model, with a caller-supplied tenant id in its filter or in its
  records.\<close>

definition filtered :: "string \<Rightarrow> string \<Rightarrow> string \<Rightarrow> params" where
  "filtered m act tid =
     \<lparr>model = Some m, action = act,
      args = Some \<lparr>whereArg = Some [(''tenantId'', JStr tid)], data = None, others = []\<rparr>\<rparr>"

definition inserting :: "string \<Rightarrow> string \<Rightarrow> payload \<Rightarrow> params" where
  "inserting m act dt =
     \<lparr>model = Some m, action = act,
      args = Some \<lparr>whereArg = None, data = Some dt, others = []\<rparr>\<rparr>"

text \<open>Two behaviours of \<open>auditLog.create\<close> on a store that is the list of its entries,
  and a \<open>client.create\<close> that names the new row \<open>c1\<close>.\<close>

definition appendEntry :: "auditData \<Rightarrow> auditData list \<Rightarrow> auditData list promise" where
  "appendEntry e s = Resolved (s @ [e])"

definition storageDown :: "auditData \<Rightarrow> auditData list \<Rightarrow> auditData list promise" where
  "storageDown e s = Rejected ''storage unavailable''"

definition insertClient :: "obj \<Rightarrow> auditData list \<Rightarrow> (string \<times> obj \<times> auditData list) promise" where
  "insertClient row s = Resolved (''c1'', row, s)"

section \<open>Properties of the property assignment\<close>

lemma objGet_objSet_same: "objGet k (objSet k v ps) = Some v"
  by (induction ps) auto

lemma objGet_objSet_other: "k' \<noteq> k \<Longrightarrow> objGet k' (objSet k v ps) = objGet k' ps"
  by (induction ps) auto

lemma keys_objSet: "set (map fst (objSet k v ps)) = insert k (set (map fst ps))"
proof (induction ps)
  case Nil
  then show ?case by simp
next
  case (Cons q qs)
  obtain k' v' where q: "q = (k', v')" by (cases q)
  show ?case
  proof (cases "k' = k")
    case True
    with q show ?thesis by simp
  next
    case False
    with q Cons.IH show ?thesis by (simp add: insert_commute)
  qed
qed

lemma distinct_objSet: "distinct (map fst ps) \<Longrightarrow> distinct (map fst (objSet k v ps))"
proof (induction ps)
  case Nil
  then show ?case by simp
next
  case (Cons q qs)
  obtain k' v' where q: "q = (k', v')" by (cases q)
  from Cons.prems q have d: "distinct (map fst qs)" and n: "k' \<notin> set (map fst qs)"
    by simp_all
  show ?case
  proof (cases "k' = k")
    case True
    with Cons.prems q show ?thesis by simp
  next
    case False
    with n have "k' \<notin> set (map fst (objSet k v qs))"
      by (simp only: keys_objSet) simp
    with False q Cons.IH [OF d] show ?thesis by simp
  qed
qed

lemma no_entry_outside_keys:
  "k \<notin> set (map fst ps) \<Longrightarrow> filter (\<lambda>(k', v'). k' = k) ps = []"
  by (induction ps) auto

text \<open>After the assignment an object without duplicate keys has exactly one property of
  the assigned name, with the assigned value.\<close>

lemma one_entry_objSet:
  "distinct (map fst ps) \<Longrightarrow> filter (\<lambda>(k', v'). k' = k) (objSet k v ps) = [(k, v)]"
proof (induction ps)
  case Nil
  then show ?case by simp
next
  case (Cons q qs)
  obtain k' v' where q: "q = (k', v')" by (cases q)
  from Cons.prems q have d: "distinct (map fst qs)" and n: "k' \<notin> set (map fst qs)"
    by simp_all
  show ?case
  proof (cases "k' = k")
    case True
    with n have "filter (\<lambda>(k', v'). k' = k) qs = []"
      by (simp add: no_entry_outside_keys)
    with True q show ?thesis by simp
  next
    case False
    with q Cons.IH [OF d] show ?thesis by simp
  qed
qed

lemma whereTenant_scopeWhere:
  "whereTenant (p\<lparr>args := Some (scopeWhere tid a)\<rparr>) = Some (JStr tid)"
  by (simp add: whereTenant_def scopeWhere_def objGet_objSet_same)

section \<open>Tenant scoping\<close>

text \<open>On the filter-based actions of a scoped model, whenever the rewrite hands an
  operation on, the operation's filter carries the captured tenant id, whatever the
  caller had put there.\<close>

lemma scopeHook_filter:
  assumes "model p = Some m" and "m \<in> set tenantModels"
    and "action p \<in> {''findUnique'', ''findFirst'', ''findMany'', ''update'', ''updateMany'',
           ''delete'', ''deleteMany''}"
    and "scopeHook tid p = Inr p'"
  shows "whereTenant p' = Some (JStr tid)"
proof -
  from assms(1,2) have scoped: "(case model p of None \<Rightarrow> False | Some m \<Rightarrow> m \<in> set tenantModels)"
    by simp
  from assms(3,4) scoped have "\<exists>a. p' = p\<lparr>args := Some (scopeWhere tid a)\<rparr>"
    unfolding scopeHook_def by (auto split: option.splits if_splits)
  then show ?thesis by (auto simp: whereTenant_scopeWhere)
qed

text \<open>On \<open>create\<close> and \<open>createMany\<close> with a single record as data, the record carries
  the captured tenant id.\<close>

lemma scopeHook_single_record:
  assumes "model p = Some m" and "m \<in> set tenantModels"
    and "action p = ''create'' \<or> action p = ''createMany''"
    and "args p = Some a" and "data a = Some (Single r)"
  shows "\<exists>p'. scopeHook tid p = Inr p' \<and> dataTenants p' = [Some (JStr tid)]"
  using assms unfolding scopeHook_def
  by (auto simp: dataTenants_def objGet_objSet_same)

text \<open>The rewrite changes neither the model nor the action of an operation.\<close>

lemma scopeHook_keeps_target:
  "scopeHook tid p = Inr p' \<Longrightarrow> model p' = model p \<and> action p' = action p"
  unfolding scopeHook_def by (auto split: option.splits if_splits)

lemma runMiddlewares_keeps_target:
  "runMiddlewares tids p = Inr p' \<Longrightarrow> model p' = model p \<and> action p' = action p"
proof (induction tids arbitrary: p)
  case Nil
  then show ?case by simp
next
  case (Cons tid tids)
  from Cons.prems obtain q where q: "scopeHook tid p = Inr q" and r: "runMiddlewares tids q = Inr p'"
    by (auto split: sum.splits)
  from Cons.IH [OF r] scopeHook_keeps_target [OF q] show ?case by simp
qed

lemma runMiddlewares_snoc:
  "runMiddlewares (tids @ [tid]) p =
     (case runMiddlewares tids p of Inl e \<Rightarrow> Inl e | Inr q \<Rightarrow> scopeHook tid q)"
  by (induction tids arbitrary: p) (auto split: sum.splits)

text \<open>Whatever the client already holds, once a request of tenant \<open>tid\<close> has installed
  its function, every filter-based operation on a scoped model that the client hands on
  is filtered by \<open>tid\<close>: the function installed last decides, for every caller of the
  client.\<close>

lemma last_installed_decides:
  assumes "model p = Some m" and "m \<in> set tenantModels"
    and "action p \<in> {''findUnique'', ''findFirst'', ''findMany'', ''update'', ''updateMany'',
           ''delete'', ''deleteMany''}"
    and "execute (use tid c) p = Inr p'"
  shows "whereTenant p' = Some (JStr tid)"
proof -
  from assms(4) obtain q where q: "runMiddlewares (installed c) p = Inr q"
    and h: "scopeHook tid q = Inr p'"
    by (auto simp: execute_def use_def runMiddlewares_snoc split: sum.splits)
  from runMiddlewares_keeps_target [OF q] assms(1,3)
  have target: "model q = Some m" and act: "action q \<in> {''findUnique'', ''findFirst'',
      ''findMany'', ''update'', ''updateMany'', ''delete'', ''deleteMany''}"
    by simp_all
  from target assms(2) act h show ?thesis by (rule scopeHook_filter)
qed

text \<open>C1. For a principal of tenant \<open>T1\<close>, a \<open>createMany\<close> on the scoped model
  \<open>Client\<close> whose data is an array with one record naming tenant \<open>T2\<close> leaves the
  rewrite with that record unchanged: the tenant id is assigned to the array itself, and
  the record that would be inserted still names \<open>T2\<close>.\<close>

theorem createMany_array_keeps_supplied_tenant:
  "scopeHook ''T1''
     (inserting ''Client'' ''createMany''
        (Many [[(''name'', JStr ''Ana''), (''tenantId'', JStr ''T2'')]] []))
   = Inr (inserting ''Client'' ''createMany''
        (Many [[(''name'', JStr ''Ana''), (''tenantId'', JStr ''T2'')]]
           [(''tenantId'', JStr ''T1'')]))
   \<and> dataTenants (inserting ''Client'' ''createMany''
        (Many [[(''name'', JStr ''Ana''), (''tenantId'', JStr ''T2'')]]
           [(''tenantId'', JStr ''T1'')])) = [Some (JStr ''T2'')]"
  by (simp add: scopeHook_def inserting_def tenantModels_def dataTenants_def)

text \<open>C2. Two requests, of tenants \<open>T1\<close> and \<open>T2\<close>, pass \<open>tenantMiddleware\<close> one after
  the other on the shared client, which then holds both installed functions. An operation
  that the handler of the first request issues afterwards, filtered by its own tenant
  \<open>T1\<close>, leaves the client's middleware list filtered by \<open>T2\<close>.\<close>

theorem shared_client_applies_other_tenant:
  "tenantMiddleware (reqOf ''T1'')
     (dbWith [tenantRow ''T1'' SIMPLE True None, tenantRow ''T2'' SIMPLE True None] 0) 0
     \<lparr>installed = []\<rparr> = Inr \<lparr>installed = [''T1'']\<rparr>
   \<and> tenantMiddleware (reqOf ''T2'')
     (dbWith [tenantRow ''T1'' SIMPLE True None, tenantRow ''T2'' SIMPLE True None] 0) 0
     \<lparr>installed = [''T1'']\<rparr> = Inr \<lparr>installed = [''T1'', ''T2'']\<rparr>
   \<and> execute \<lparr>installed = [''T1'', ''T2'']\<rparr> (filtered ''Client'' ''findMany'' ''T1'')
       = Inr (filtered ''Client'' ''findMany'' ''T2'')"
  by (simp add: tenantMiddleware_def truthyTenantId_def reqOf_def dbWith_def tenantRow_def
      expiredAt_def use_def execute_def scopeHook_def scopeWhere_def filtered_def
      tenantModels_def)

section \<open>Plan policy table\<close>

lemma simple_modules_in_composite:
  "set (PLAN_MODULES SIMPLE) \<subseteq> set (PLAN_MODULES COMPOSITE)
   \<and> ''projects'' \<in> set (PLAN_MODULES COMPOSITE)
   \<and> ''projects'' \<notin> set (PLAN_MODULES SIMPLE)"
  by simp

lemma features_monotone:
  "PLAN_LEVELS t1 < PLAN_LEVELS t2 \<Longrightarrow> hasFeature t1 f \<Longrightarrow> hasFeature t2 f"
  by (cases t1; cases t2; cases f) (simp_all add: hasFeature_def)

text \<open>C3. \<open>COMPOSITE\<close> is below \<open>MANAGERIAL\<close> and grants the module
  \<open>basic_reports\<close>, which \<open>MANAGERIAL\<close> does not grant: the module set of the lower
  tier is not included in that of the higher one, and a \<open>MANAGERIAL\<close> tenant asking
  for \<open>basic_reports\<close> is denied, with the two lower tiers as the suggested plans.\<close>

theorem managerial_lacks_basic_reports:
  "PLAN_LEVELS COMPOSITE < PLAN_LEVELS MANAGERIAL
   \<and> canAccessModule COMPOSITE ''basic_reports''
   \<and> \<not> canAccessModule MANAGERIAL ''basic_reports''
   \<and> \<not> set (PLAN_MODULES COMPOSITE) \<subseteq> set (PLAN_MODULES MANAGERIAL)
   \<and> checkPlanAccess ''basic_reports'' (reqOf ''T3'')
        (dbWith [tenantRow ''T3'' MANAGERIAL True None] 0) 0
      = Respond 403 (PLAN_ACCESS_DENIED MANAGERIAL ''basic_reports''
          (PLAN_MODULES MANAGERIAL) [SIMPLE, COMPOSITE])"
  by (simp add: canAccessModule_def checkPlanAccess_def truthyTenantId_def reqOf_def
      dbWith_def tenantRow_def expiredAt_def getSuggestedPlans_def planKeys_def)

section \<open>Entitlement checks\<close>

text \<open>C4. Counterexample: the tenant's plan expired at time 1000 and the tenant has
  since been deactivated in the store. At time 2000 the module-access check on the store
  denies; the resource-limit and feature-flag checks, run on the snapshot that a
  module-access check attached at time 1000, let the request through.\<close>

theorem limits_and_feature_skip_lifecycle:
  "checkPlanAccess ''clients'' (reqOf ''T1'')
     (dbWith [tenantRow ''T1'' COMPOSITE True (Some 1000)] 0) 1000
     = Next (admitted ''T1'' (tenantRow ''T1'' COMPOSITE True (Some 1000)))
   \<and> checkPlanAccess ''clients'' (reqOf ''T1'')
     (dbWith [tenantRow ''T1'' COMPOSITE True (Some 1000)] 0) 2000
     = Respond 403 (PLAN_EXPIRED 1000)
   \<and> checkPlanAccess ''clients'' (reqOf ''T1'')
     (dbWith [tenantRow ''T1'' COMPOSITE False (Some 1000)] 0) 2000
     = Respond 403 TENANT_INACTIVE
   \<and> checkPlanLimits R_clients
     (admitted ''T1'' (tenantRow ''T1'' COMPOSITE True (Some 1000)))
     (dbWith [tenantRow ''T1'' COMPOSITE False (Some 1000)] 0)
     = Next (admitted ''T1'' (tenantRow ''T1'' COMPOSITE True (Some 1000)))
   \<and> checkPlanFeature F_api_access
     (admitted ''T1'' (tenantRow ''T1'' COMPOSITE True (Some 1000)))
     = Next (admitted ''T1'' (tenantRow ''T1'' COMPOSITE True (Some 1000)))"
  by (simp add: checkPlanAccess_def checkPlanLimits_def checkPlanFeature_def
      truthyTenantId_def admitted_def reqOf_def dbWith_def tenantRow_def expiredAt_def)

text \<open>C4, as amended. Only the module-access check validates the lifecycle state: once
  the tenant row is found, an inactive tenant is answered \<open>TENANT_INACTIVE\<close> and an
  active tenant whose expiry timestamp has passed is answered \<open>PLAN_EXPIRED\<close> with
  that timestamp, whatever the requested module. The answers of the resource-limit and
  feature-flag checks do not depend on the active flag or the expiry timestamp of the
  snapshot they are given.\<close>

theorem lifecycle_checked_by_access_only:
  assumes "truthyTenantId req = Some tid"
    and "tenant_findUnique d tid = Resolved (Some t)"
  shows "(\<not> isActive t \<longrightarrow> checkPlanAccess m req d now = Respond 403 TENANT_INACTIVE)
       \<and> (isActive t \<and> expiresAt t = Some e \<and> now > e \<longrightarrow>
            checkPlanAccess m req d now = Respond 403 (PLAN_EXPIRED e))
       \<and> verdict (checkPlanLimits r (req\<lparr>req_tenant := Some (t\<lparr>isActive := a, expiresAt := x\<rparr>)\<rparr>) d)
           = verdict (checkPlanLimits r (req\<lparr>req_tenant := Some t\<rparr>) d)
       \<and> verdict (checkPlanFeature f (req\<lparr>req_tenant := Some (t\<lparr>isActive := a, expiresAt := x\<rparr>)\<rparr>))
           = verdict (checkPlanFeature f (req\<lparr>req_tenant := Some t\<rparr>))"
proof -
  have tid: "truthyTenantId (req\<lparr>req_tenant := s\<rparr>) = Some tid" for s
    using assms(1) by (simp add: truthyTenantId_def)
  have access: "\<not> isActive t \<longrightarrow> checkPlanAccess m req d now = Respond 403 TENANT_INACTIVE"
    using assms by (simp add: checkPlanAccess_def)
  have expiry: "isActive t \<and> expiresAt t = Some e \<and> now > e \<longrightarrow>
      checkPlanAccess m req d now = Respond 403 (PLAN_EXPIRED e)"
    using assms by (simp add: checkPlanAccess_def expiredAt_def)
  have lim: "verdict (checkPlanLimits r (req\<lparr>req_tenant := Some (t\<lparr>isActive := a, expiresAt := x\<rparr>)\<rparr>) d)
      = verdict (checkPlanLimits r (req\<lparr>req_tenant := Some t\<rparr>) d)"
    by (simp add: checkPlanLimits_def tid split: promise.splits prod.splits)
  have feat: "verdict (checkPlanFeature f (req\<lparr>req_tenant := Some (t\<lparr>isActive := a, expiresAt := x\<rparr>)\<rparr>))
      = verdict (checkPlanFeature f (req\<lparr>req_tenant := Some t\<rparr>))"
    by (simp add: checkPlanFeature_def)
  from access expiry lim feat show ?thesis by blast
qed

theorem lifecycle_checked_by_access_only_witness:
  "truthyTenantId (reqOf ''T1'') = Some ''T1''
   \<and> tenant_findUnique (dbWith [tenantRow ''T1'' SIMPLE True (Some 1000)] 7) ''T1''
       = Resolved (Some (tenantRow ''T1'' SIMPLE True (Some 1000)))
   \<and> checkPlanAccess ''crm'' (reqOf ''T1'')
       (dbWith [tenantRow ''T1'' SIMPLE True (Some 1000)] 7) 2000
       = Respond 403 (PLAN_EXPIRED 1000)
   \<and> verdict (checkPlanLimits R_users
        (admitted ''T1'' (tenantRow ''T1'' SIMPLE False None))
        (dbWith [tenantRow ''T1'' SIMPLE True (Some 1000)] 7))
       = verdict (checkPlanLimits R_users
        (admitted ''T1'' (tenantRow ''T1'' SIMPLE True (Some 1000)))
        (dbWith [tenantRow ''T1'' SIMPLE True (Some 1000)] 7))"
proof -
  have h1: "truthyTenantId (reqOf ''T1'') = Some ''T1''"
    by (simp add: truthyTenantId_def reqOf_def)
  have h2: "tenant_findUnique (dbWith [tenantRow ''T1'' SIMPLE True (Some 1000)] 7) ''T1''
      = Resolved (Some (tenantRow ''T1'' SIMPLE True (Some 1000)))"
    by (simp add: dbWith_def tenantRow_def)
  show ?thesis
    using h1 h2
      lifecycle_checked_by_access_only [OF h1 h2, where m = "''crm''" and now = 2000
        and e = 1000 and r = R_users and a = False and x = None and f = F_projects]
    by (simp add: admitted_def tenantRow_def)
qed

text \<open>C5. When the resource-limit check has its snapshot and tenant id and its query
  resolves to the current count \<open>n\<close>, with \<open>N\<close> the ceiling that the plan table gives
  for the resource kind: a ceiling of \<open>-1\<close> always allows; any other ceiling allows
  when \<open>n < N\<close> and denies with \<open>PLAN_LIMIT_EXCEEDED\<close>, carrying \<open>n\<close> and \<open>N\<close>, when
  \<open>n \<ge> N\<close>, so that it denies exactly when \<open>n \<ge> N\<close>. The \<open>SIMPLE\<close> plan's ceiling
  for clients is 50.\<close>

theorem checkPlanLimits_ceiling:
  assumes "req_tenant req = Some t"
    and "truthyTenantId req = Some tid"
    and "resourceUsage d (PLAN_LIMITS (planType t)) r tid = Resolved (n, N)"
  shows "N = (case r of
                R_users \<Rightarrow> maxUsers (PLAN_LIMITS (planType t))
              | R_clients \<Rightarrow> maxClients (PLAN_LIMITS (planType t))
              | R_projects \<Rightarrow> maxProjects (PLAN_LIMITS (planType t))
              | R_storage \<Rightarrow> maxStorage (PLAN_LIMITS (planType t)))
       \<and> (N = - 1 \<longrightarrow> checkPlanLimits r req d = Next req)
       \<and> (N \<noteq> - 1 \<and> n < N \<longrightarrow> checkPlanLimits r req d = Next req)
       \<and> (N \<noteq> - 1 \<and> n \<ge> N \<longrightarrow>
            checkPlanLimits r req d =
              Respond 403 (PLAN_LIMIT_EXCEEDED (planType t) r n N
                (getSuggestedPlansForLimit r (planType t))))
       \<and> (N \<noteq> - 1 \<longrightarrow> (verdict (checkPlanLimits r req d) \<noteq> None) = (n \<ge> N))
       \<and> maxClients (PLAN_LIMITS SIMPLE) = 50"
proof -
  have ceiling: "N = (case r of
                R_users \<Rightarrow> maxUsers (PLAN_LIMITS (planType t))
              | R_clients \<Rightarrow> maxClients (PLAN_LIMITS (planType t))
              | R_projects \<Rightarrow> maxProjects (PLAN_LIMITS (planType t))
              | R_storage \<Rightarrow> maxStorage (PLAN_LIMITS (planType t)))"
    using assms(3) by (cases r) (auto split: promise.splits)
  have decision: "checkPlanLimits r req d =
      (if N \<noteq> - 1 \<and> n \<ge> N
       then Respond 403 (PLAN_LIMIT_EXCEEDED (planType t) r n N
              (getSuggestedPlansForLimit r (planType t)))
       else Next req)"
    using assms by (simp add: checkPlanLimits_def)
  from ceiling show ?thesis
    by (simp add: decision)
qed

theorem checkPlanLimits_ceiling_witness:
  "checkPlanLimits R_clients (admitted ''T1'' (tenantRow ''T1'' SIMPLE True None))
       (dbWith [tenantRow ''T1'' SIMPLE True None] 50)
     = Respond 403 (PLAN_LIMIT_EXCEEDED SIMPLE R_clients 50 50 [COMPOSITE, MANAGERIAL])
   \<and> checkPlanLimits R_clients (admitted ''T1'' (tenantRow ''T1'' SIMPLE True None))
       (dbWith [tenantRow ''T1'' SIMPLE True None] 49)
     = Next (admitted ''T1'' (tenantRow ''T1'' SIMPLE True None))
   \<and> checkPlanLimits R_clients (admitted ''T1'' (tenantRow ''T1'' MANAGERIAL True None))
       (dbWith [tenantRow ''T1'' MANAGERIAL True None] 1000000)
     = Next (admitted ''T1'' (tenantRow ''T1'' MANAGERIAL True None))"
proof -
  have h1: "req_tenant (admitted ''T1'' (tenantRow ''T1'' plan True None))
      = Some (tenantRow ''T1'' plan True None)" for plan
    by (simp add: admitted_def)
  have h2: "truthyTenantId (admitted ''T1'' (tenantRow ''T1'' plan True None)) = Some ''T1''"
    for plan
    by (simp add: truthyTenantId_def admitted_def reqOf_def)
  have full: "resourceUsage (dbWith [tenantRow ''T1'' SIMPLE True None] 50)
      (PLAN_LIMITS (planType (tenantRow ''T1'' SIMPLE True None))) R_clients ''T1''
      = Resolved (50, 50)"
    by (simp add: dbWith_def tenantRow_def)
  have below: "resourceUsage (dbWith [tenantRow ''T1'' SIMPLE True None] 49)
      (PLAN_LIMITS (planType (tenantRow ''T1'' SIMPLE True None))) R_clients ''T1''
      = Resolved (49, 50)"
    by (simp add: dbWith_def tenantRow_def)
  have unlimited: "resourceUsage (dbWith [tenantRow ''T1'' MANAGERIAL True None] 1000000)
      (PLAN_LIMITS (planType (tenantRow ''T1'' MANAGERIAL True None))) R_clients ''T1''
      = Resolved (1000000, - 1)"
    by (simp add: dbWith_def tenantRow_def)
  from checkPlanLimits_ceiling [OF h1 h2 full]
  have "checkPlanLimits R_clients (admitted ''T1'' (tenantRow ''T1'' SIMPLE True None))
       (dbWith [tenantRow ''T1'' SIMPLE True None] 50)
     = Respond 403 (PLAN_LIMIT_EXCEEDED SIMPLE R_clients 50 50 [COMPOSITE, MANAGERIAL])"
    by (simp add: tenantRow_def getSuggestedPlansForLimit_def planKeys_def)
  moreover from checkPlanLimits_ceiling [OF h1 h2 below]
  have "checkPlanLimits R_clients (admitted ''T1'' (tenantRow ''T1'' SIMPLE True None))
       (dbWith [tenantRow ''T1'' SIMPLE True None] 49)
     = Next (admitted ''T1'' (tenantRow ''T1'' SIMPLE True None))"
    by simp
  moreover from checkPlanLimits_ceiling [OF h1 h2 unlimited]
  have "checkPlanLimits R_clients (admitted ''T1'' (tenantRow ''T1'' MANAGERIAL True None))
       (dbWith [tenantRow ''T1'' MANAGERIAL True None] 1000000)
     = Next (admitted ''T1'' (tenantRow ''T1'' MANAGERIAL True None))"
    by simp
  ultimately show ?thesis by blast
qed

text \<open>C6. Counterexample: on the \<open>SIMPLE\<close> plan the ceiling for projects is 0 and the
  ceiling for users is 3. A tenant with no project is denied a project, and a tenant with
  three users is denied a user, with the same code.\<close>

theorem zero_ceiling_same_code:
  "checkPlanLimits R_projects
     (admitted ''T1'' (tenantRow ''T1'' SIMPLE True None))
     (dbWith [tenantRow ''T1'' SIMPLE True None] 0)
     = Respond 403 (PLAN_LIMIT_EXCEEDED SIMPLE R_projects 0 0 [COMPOSITE, MANAGERIAL])
   \<and> checkPlanLimits R_users
     (admitted ''T1'' (tenantRow ''T1'' SIMPLE True None))
     (dbWith [tenantRow ''T1'' SIMPLE True None] 3)
     = Respond 403 (PLAN_LIMIT_EXCEEDED SIMPLE R_users 3 3 [COMPOSITE, MANAGERIAL])
   \<and> code (PLAN_LIMIT_EXCEEDED SIMPLE R_projects 0 0 [COMPOSITE, MANAGERIAL])
     = code (PLAN_LIMIT_EXCEEDED SIMPLE R_users 3 3 [COMPOSITE, MANAGERIAL])"
  by (simp add: checkPlanLimits_def truthyTenantId_def admitted_def reqOf_def dbWith_def
      tenantRow_def getSuggestedPlansForLimit_def planKeys_def)

text \<open>C6, as amended. The resource-limit check has one denial code for its ceilings:
  whenever the ceiling \<open>N\<close> is not \<open>-1\<close> and the current count has reached it, \<open>N = 0\<close>
  included, the answer is 403 with code \<open>PLAN_LIMIT_EXCEEDED\<close>, and the ceiling is
  reported as \<open>maxAllowed\<close>.\<close>

theorem limit_denials_have_one_code:
  assumes "req_tenant req = Some t"
    and "truthyTenantId req = Some tid"
    and "resourceUsage d (PLAN_LIMITS (planType t)) r tid = Resolved (n, N)"
    and "N \<noteq> - 1" and "n \<ge> N"
  shows "checkPlanLimits r req d =
           Respond 403 (PLAN_LIMIT_EXCEEDED (planType t) r n N
             (getSuggestedPlansForLimit r (planType t)))
       \<and> map_option (\<lambda>(status, b). code b) (verdict (checkPlanLimits r req d))
           = Some ''PLAN_LIMIT_EXCEEDED''"
  using assms by (simp add: checkPlanLimits_def)

theorem limit_denials_have_one_code_witness:
  "map_option (\<lambda>(status, b). code b)
     (verdict (checkPlanLimits R_projects
        (admitted ''T1'' (tenantRow ''T1'' SIMPLE True None))
        (dbWith [tenantRow ''T1'' SIMPLE True None] 0)))
   = Some ''PLAN_LIMIT_EXCEEDED''"
proof -
  have h1: "req_tenant (admitted ''T1'' (tenantRow ''T1'' SIMPLE True None))
      = Some (tenantRow ''T1'' SIMPLE True None)"
    by (simp add: admitted_def)
  have h2: "truthyTenantId
      (admitted ''T1'' (tenantRow ''T1'' SIMPLE True None)) = Some ''T1''"
    by (simp add: truthyTenantId_def admitted_def reqOf_def)
  have h3: "resourceUsage (dbWith [tenantRow ''T1'' SIMPLE True None] 0)
      (PLAN_LIMITS (planType (tenantRow ''T1'' SIMPLE True None))) R_projects ''T1''
      = Resolved (0, 0)"
    by (simp add: dbWith_def tenantRow_def)
  have h4: "(0::int) \<noteq> - 1" by simp
  have h5: "(0::int) \<ge> 0" by simp
  from limit_denials_have_one_code [OF h1 h2 h3 h4 h5] show ?thesis by blast
qed

text \<open>C7. \<open>File\<close> is a model of the store, and the storage branch of the
  resource-limit check reads its rows by tenant id, but it is not among the models the
  rewrite covers: for a principal of tenant \<open>T1\<close>, a \<open>findMany\<close> on \<open>File\<close> filtered
  by tenant \<open>T2\<close> leaves the rewrite as it came.\<close>

theorem file_model_not_scoped:
  "''File'' \<in> set prismaModels
   \<and> ''File'' \<notin> set tenantModels
   \<and> scopeHook ''T1'' (filtered ''File'' ''findMany'' ''T2'')
       = Inr (filtered ''File'' ''findMany'' ''T2'')
   \<and> whereTenant (filtered ''File'' ''findMany'' ''T2'') = Some (JStr ''T2'')"
  by (simp add: prismaModels_def tenantModels_def scopeHook_def filtered_def whereTenant_def)

text \<open>C8. For a tenant that is found, active, not expired and on the \<open>SIMPLE\<close> plan,
  the module-access check for \<open>projects\<close> answers 403 \<open>PLAN_ACCESS_DENIED\<close> with the
  current plan \<open>SIMPLE\<close>, the requested module, the four modules of \<open>SIMPLE\<close> and the
  suggested plans \<open>COMPOSITE\<close> and \<open>MANAGERIAL\<close>, which are exactly the plans whose
  modules include \<open>projects\<close>.\<close>

theorem simple_projects_denied:
  assumes "truthyTenantId req = Some tid"
    and "tenant_findUnique d tid = Resolved (Some t)"
    and "isActive t" and "expiredAt now t = None" and "planType t = SIMPLE"
  shows "checkPlanAccess ''projects'' req d now =
           Respond 403 (PLAN_ACCESS_DENIED SIMPLE ''projects''
             [''dashboard'', ''crm'', ''clients'', ''basic_reports'']
             [COMPOSITE, MANAGERIAL])
       \<and> (\<forall>plan. (plan \<in> set [COMPOSITE, MANAGERIAL])
             = (''projects'' \<in> set (PLAN_MODULES plan)))"
proof -
  have "checkPlanAccess ''projects'' req d now =
           Respond 403 (PLAN_ACCESS_DENIED SIMPLE ''projects''
             [''dashboard'', ''crm'', ''clients'', ''basic_reports'']
             [COMPOSITE, MANAGERIAL])"
    using assms by (simp add: checkPlanAccess_def getSuggestedPlans_def planKeys_def)
  moreover have "(plan \<in> set [COMPOSITE, MANAGERIAL])
      = (''projects'' \<in> set (PLAN_MODULES plan))" for plan
    by (cases plan) simp_all
  ultimately show ?thesis by blast
qed

theorem simple_projects_denied_witness:
  "checkPlanAccess ''projects'' (reqOf ''T1'')
     (dbWith [tenantRow ''T1'' SIMPLE True (Some 5000)] 0) 4000
   = Respond 403 (PLAN_ACCESS_DENIED SIMPLE ''projects''
       [''dashboard'', ''crm'', ''clients'', ''basic_reports''] [COMPOSITE, MANAGERIAL])"
proof -
  have h1: "truthyTenantId (reqOf ''T1'') = Some ''T1''"
    by (simp add: truthyTenantId_def reqOf_def)
  have h2: "tenant_findUnique (dbWith [tenantRow ''T1'' SIMPLE True (Some 5000)] 0) ''T1''
      = Resolved (Some (tenantRow ''T1'' SIMPLE True (Some 5000)))"
    by (simp add: dbWith_def tenantRow_def)
  have h3: "isActive (tenantRow ''T1'' SIMPLE True (Some 5000))"
    by (simp add: tenantRow_def)
  have h4: "expiredAt 4000 (tenantRow ''T1'' SIMPLE True (Some 5000)) = None"
    by (simp add: expiredAt_def tenantRow_def)
  have h5: "planType (tenantRow ''T1'' SIMPLE True (Some 5000)) = SIMPLE"
    by (simp add: tenantRow_def)
  from simple_projects_denied [OF h1 h2 h3 h4 h5] show ?thesis by blast
qed

text \<open>C10. Without a tenant snapshot on the request, the resource-limit check and the
  feature-flag check answer 401 with code \<open>INVALID_AUTH\<close>, whatever the resource kind,
  the feature and the store; this code is not among the denial codes the specification
  lists. The snapshot comes from the module-access check: whenever that check passes the
  request on, the request carries the tenant row it has read.\<close>

theorem limits_and_feature_need_snapshot:
  assumes "req_tenant req = None"
  shows "checkPlanLimits r req d = Respond 401 INVALID_AUTH
       \<and> checkPlanFeature f req = Respond 401 INVALID_AUTH
       \<and> code INVALID_AUTH \<notin> set spec_denial_codes
       \<and> (\<forall>req'. checkPlanAccess m req d now = Next req' \<longrightarrow> req_tenant req' \<noteq> None)"
proof -
  have "checkPlanLimits r req d = Respond 401 INVALID_AUTH"
    using assms by (simp add: checkPlanLimits_def)
  moreover have "checkPlanFeature f req = Respond 401 INVALID_AUTH"
    using assms by (simp add: checkPlanFeature_def)
  moreover have "code INVALID_AUTH \<notin> set spec_denial_codes"
    by (simp add: spec_denial_codes_def)
  moreover have "req_tenant req' \<noteq> None" if "checkPlanAccess m req d now = Next req'" for req'
    using that unfolding checkPlanAccess_def
    by (auto split: option.splits promise.splits if_splits)
  ultimately show ?thesis by blast
qed

theorem limits_and_feature_need_snapshot_witness:
  "req_tenant (reqOf ''T1'') = None
   \<and> checkPlanLimits R_storage (reqOf ''T1'') (dbWith [tenantRow ''T1'' SIMPLE True None] 0)
       = Respond 401 INVALID_AUTH
   \<and> checkPlanFeature F_billing (reqOf ''T1'') = Respond 401 INVALID_AUTH"
proof -
  have h: "req_tenant (reqOf ''T1'') = None"
    by (simp add: reqOf_def)
  from h limits_and_feature_need_snapshot [OF h] show ?thesis by blast
qed

section \<open>Audit recorder\<close>

text \<open>C9. The promise of \<open>createAuditLog\<close> always resolves, whatever
  \<open>auditLog.create\<close> does; when the append is rejected, the store is left as it was and
  the error goes to the console. The reply of the \<open>POST /clients\<close> handler is the same
  for any two behaviours of \<open>auditLog.create\<close>.\<close>

theorem audit_failure_not_propagated:
  "fst (createAuditLog create uid tid act rt rid details (s, con)) = Resolved ()
   \<and> (create (AuditData uid tid act rt rid details) s = Rejected err \<longrightarrow>
        createAuditLog create uid tid act rt rid details (s, con)
          = (Resolved (), s, con @ [(''Erro ao criar log de auditoria:'', err)]))
   \<and> fst (postClients parsed client_create create req (s, con))
       = fst (postClients parsed client_create create' req (s, con))"
proof -
  have resolves: "fst (createAuditLog c u t a r i dt st) = Resolved ()" for c :: "auditData \<Rightarrow> 'a \<Rightarrow> 'a promise" and u t a r i dt st
    by (cases st) (simp add: createAuditLog_def split: promise.splits)
  have logged: "create (AuditData uid tid act rt rid details) s = Rejected err \<longrightarrow>
      createAuditLog create uid tid act rt rid details (s, con)
        = (Resolved (), s, con @ [(''Erro ao criar log de auditoria:'', err)])"
    by (simp add: createAuditLog_def)
  have reply: "fst (postClients parsed client_create c req (s, con))
      = (case parsed of
           Rejected e \<Rightarrow> Thrown e
         | Resolved dt \<Rightarrow>
             (case req_user req of
                None \<Rightarrow> Thrown ''TypeError''
              | Some u \<Rightarrow>
                  (case client_create (objSet ''tenantId'' (JStr (tenantId u)) dt) s of
                     Rejected e \<Rightarrow> Thrown e
                   | Resolved (cid, row, s1) \<Rightarrow> Json 201 cid row)))" for c :: "auditData \<Rightarrow> 'a \<Rightarrow> 'a promise"
    by (simp add: postClients_def createAuditLog_def split: promise.splits option.splits prod.splits)
  from resolves [of create uid tid act rt rid details "(s, con)"] logged
    reply [of create] reply [of create']
  show ?thesis by simp
qed

theorem audit_failure_not_propagated_witness:
  "storageDown (AuditData ''u1'' ''T1'' ''CREATE'' ''CLIENT'' ''c1'' None) [] =
     Rejected ''storage unavailable''
   \<and> createAuditLog storageDown ''u1'' ''T1'' ''CREATE'' ''CLIENT'' ''c1'' None ([], [])
     = (Resolved (), [],
        [(''Erro ao criar log de auditoria:'', ''storage unavailable'')])
   \<and> fst (postClients (Resolved [(''name'', JStr ''Ana'')]) insertClient storageDown
        (reqOf ''T1'') ([], []))
     = Json 201 ''c1'' [(''name'', JStr ''Ana''), (''tenantId'', JStr ''T1'')]
   \<and> fst (postClients (Resolved [(''name'', JStr ''Ana'')]) insertClient appendEntry
        (reqOf ''T1'') ([], []))
     = Json 201 ''c1'' [(''name'', JStr ''Ana''), (''tenantId'', JStr ''T1'')]"
proof -
  have h: "storageDown (AuditData ''u1'' ''T1'' ''CREATE'' ''CLIENT'' ''c1'' None) [] =
      Rejected ''storage unavailable''"
    by (simp add: storageDown_def)
  have ok: "fst (postClients (Resolved [(''name'', JStr ''Ana'')]) insertClient appendEntry
        (reqOf ''T1'') ([], []))
     = Json 201 ''c1'' [(''name'', JStr ''Ana''), (''tenantId'', JStr ''T1'')]"
    by (simp add: postClients_def createAuditLog_def insertClient_def appendEntry_def
        reqOf_def)
  from audit_failure_not_propagated [where create = storageDown and create' = appendEntry
      and uid = "''u1''" and tid = "''T1''" and act = "''CREATE''" and rt = "''CLIENT''"
      and rid = "''c1''" and details = None and s = "[]" and con = "[]"
      and err = "''storage unavailable''" and parsed = "Resolved [(''name'', JStr ''Ana'')]"
      and client_create = insertClient and req = "reqOf ''T1''"] h ok
  show ?thesis by simp
qed


end
